theory Spec2Isabelle
  imports Main
begin

section \<open>Python values and exceptions\<close>

text \<open>
  The engine of \<^verbatim>\<open>nni/retiarii/execution/base.py\<close> passes scripts, module names,
  keyword arguments and metrics around without looking into them, and Python does not
  enforce the type annotations of its signatures. These values are therefore kept in one
  universe of Python values; a dictionary is the list of its items in insertion order,
  read with \<open>map_of\<close>.
\<close>

datatype pyval =
    PyNone
  | PyBool bool
  | PyInt int
  | PyStr string
  | PyList "pyval list"
  | PyDict "(string \<times> pyval) list"

text \<open>
  The exceptions that leave the functions modelled here. \<open>KeyError\<close> carries the key
  that was missing; \<open>ListenerRaised\<close> names the listener whose callback raised;
  \<open>ImportError\<close> and \<open>TrainerRaised\<close> stand for what the trial runner's collaborators
  raise.
\<close>

datatype error =
    KeyError pyval
  | TypeError
  | ImportError
  | ListenerRaised nat
  | TrainerRaised

text \<open>Subscription \<^verbatim>\<open>data[key]\<close> with a string key: only a dictionary supports it.\<close>

fun getitem :: "pyval \<Rightarrow> string \<Rightarrow> error + pyval" where
  "getitem (PyDict items) key =
     (case map_of items key of
        None \<Rightarrow> Inl (KeyError (PyStr key))
      | Some v \<Rightarrow> Inr v)"
| "getitem _ key = Inl TypeError"

section \<open>BaseGraphData\<close>

record BaseGraphData =
  model_script :: pyval
  training_module :: pyval
  training_kwargs :: pyval

definition dump :: "BaseGraphData \<Rightarrow> pyval" where
  "dump self =
     PyDict [(''model_script'', model_script self),
             (''training_module'', training_module self),
             (''training_kwargs'', training_kwargs self)]"

text \<open>The three subscriptions are evaluated left to right; the first that raises wins.\<close>

definition load :: "pyval \<Rightarrow> error + BaseGraphData" where
  "load data =
     (case getitem data ''model_script'' of
        Inl e \<Rightarrow> Inl e
      | Inr ms \<Rightarrow>
          (case getitem data ''training_module'' of
             Inl e \<Rightarrow> Inl e
           | Inr tm \<Rightarrow>
               (case getitem data ''training_kwargs'' of
                  Inl e \<Rightarrow> Inl e
                | Inr kw \<Rightarrow>
                    Inr \<lparr>model_script = ms, training_module = tm, training_kwargs = kw\<rparr>)))"

section \<open>Models, listeners and the engine state\<close>

text \<open>
  Modelled from the spec: the classes \<^verbatim>\<open>Model\<close>, \<^verbatim>\<open>ModelStatus\<close> and
  \<^verbatim>\<open>MetricData\<close> of \<^verbatim>\<open>nni/retiarii/graph.py\<close> are imported by the engine but are
  not part of the source at hand. A model has a status out of four, the sequence of its
  intermediate metrics, one final metric (\<open>PyNone\<close> until it is set) and the training
  configuration the engine reads at submission.
\<close>

datatype ModelStatus = Waiting | Running | Trained | Failed

record TrainingConfig =
  module :: pyval
  kwargs :: pyval

record Model =
  status :: ModelStatus
  intermediate_metrics :: "pyval list"
  metric :: pyval
  training_config :: TrainingConfig

text \<open>
  Models are Python objects: the registry and the listeners hold references to them, and
  two references may denote the same object. A reference is an address into a store of
  models.
\<close>

type_synonym ref = nat

text \<open>The three callbacks of \<^verbatim>\<open>AbstractGraphListener\<close>, with their arguments.\<close>

datatype call =
    on_training_end ref bool
  | on_intermediate_metric ref pyval
  | on_metric ref pyval

text \<open>
  The listeners' code is outside the engine. A listener is known by its identity and by
  which of its callbacks raise; it observes and does not write to the engine.
\<close>

datatype listener = Listener (ident: nat) (raises: "call \<Rightarrow> bool")

datatype level = WARNING | INFO

text \<open>
  The state the engine's methods read and write: the three attributes of
  \<^verbatim>\<open>BaseExecutionEngine\<close>, the store of model objects, the records handed to
  \<^verbatim>\<open>_logger\<close> (level, message, arguments) and the listener callbacks invoked so far.
\<close>

record state =
  listeners :: "listener list"
  running_models :: "int \<rightharpoonup> ref"
  resources :: int
  objects :: "ref \<Rightarrow> Model"
  logged :: "(level \<times> string \<times> int list) list"
  calls :: "(nat \<times> call) list"

text \<open>
  \<^verbatim>\<open>__init__\<close>: no listener, no running model, no resource. The five callback
  slots it fills in on the advisor are the five callbacks defined below; the advisor calls
  them through \<open>deliver\<close>.
\<close>

definition init :: "(ref \<Rightarrow> Model) \<Rightarrow> state" where
  "init store =
     \<lparr>listeners = [], running_models = Map.empty, resources = 0,
      objects = store, logged = [], calls = []\<rparr>"

definition register_graph_listener :: "listener \<Rightarrow> state \<Rightarrow> state" where
  "register_graph_listener l self = self\<lparr>listeners := listeners self @ [l]\<rparr>"

section \<open>Submission\<close>

text \<open>
  \<^verbatim>\<open>codegen.model_to_pytorch_script\<close> and the advisor's \<^verbatim>\<open>send_trial\<close> are
  collaborators of the engine: the first is a function of the model, the second a
  transition of the advisor that returns the identifier it assigns.
\<close>

definition graph_data_of :: "(Model \<Rightarrow> pyval) \<Rightarrow> Model \<Rightarrow> BaseGraphData" where
  "graph_data_of model_to_pytorch_script model =
     \<lparr>model_script = model_to_pytorch_script model,
      training_module = module (training_config model),
      training_kwargs = kwargs (training_config model)\<rparr>"

fun submit_models ::
  "(Model \<Rightarrow> pyval) \<Rightarrow> ('a \<Rightarrow> pyval \<Rightarrow> int \<times> 'a) \<Rightarrow> ref list \<Rightarrow> 'a \<times> state \<Rightarrow> 'a \<times> state" where
  "submit_models model_to_pytorch_script send_trial [] (advisor, self) = (advisor, self)"
| "submit_models model_to_pytorch_script send_trial (model # models) (advisor, self) =
     (let data = graph_data_of model_to_pytorch_script (objects self model);
          (trial_id, advisor') = send_trial advisor (dump data)
      in submit_models model_to_pytorch_script send_trial models
           (advisor', self\<lparr>running_models := (running_models self)(trial_id \<mapsto> model)\<rparr>))"

text \<open>The identifiers the advisor returns to one call of \<open>submit_models\<close>, in order.\<close>

fun assigned_ids ::
  "(Model \<Rightarrow> pyval) \<Rightarrow> ('a \<Rightarrow> pyval \<Rightarrow> int \<times> 'a) \<Rightarrow> (ref \<Rightarrow> Model) \<Rightarrow> ref list \<Rightarrow> 'a \<Rightarrow> int list" where
  "assigned_ids model_to_pytorch_script send_trial store [] advisor = []"
| "assigned_ids model_to_pytorch_script send_trial store (model # models) advisor =
     (let data = graph_data_of model_to_pytorch_script (store model);
          (trial_id, advisor') = send_trial advisor (dump data)
      in trial_id # assigned_ids model_to_pytorch_script send_trial store models advisor')"

section \<open>The advisor's callbacks\<close>

text \<open>
  Every callback returns the exception that left it, if any, and the state it left
  behind: what was written before a \<^verbatim>\<open>raise\<close> stays written.
\<close>

definition send_trial_callback :: "pyval \<Rightarrow> state \<Rightarrow> error option \<times> state" where
  "send_trial_callback paramater self =
     (let self1 =
            (if resources self \<le> 0
             then self\<lparr>logged := logged self @
                    [(WARNING, ''There is no available resource, but trial is submitted.'', [])]\<rparr>
             else self);
          self2 = self1\<lparr>resources := resources self1 - 1\<rparr>
      in (None, self2\<lparr>logged := logged self2 @
                    [(INFO, ''on_resource_used: %d'', [resources self2])]\<rparr>))"

definition request_trial_jobs_callback :: "int \<Rightarrow> state \<Rightarrow> error option \<times> state" where
  "request_trial_jobs_callback num_trials self =
     (let self1 = self\<lparr>resources := resources self + num_trials\<rparr>
      in (None, self1\<lparr>logged := logged self1 @
                    [(INFO, ''on_resource_available: %d'', [resources self1])]\<rparr>))"

text \<open>
  The loop \<^verbatim>\<open>for listener in self._listeners: listener.on_...(model, ...)\<close>: the
  callbacks run one after the other, and the first that raises ends the loop.
\<close>

fun notify :: "listener list \<Rightarrow> call \<Rightarrow> state \<Rightarrow> error option \<times> state" where
  "notify [] c self = (None, self)"
| "notify (l # ls) c self =
     (let self1 = self\<lparr>calls := calls self @ [(ident l, c)]\<rparr>
      in if raises l c then (Some (ListenerRaised (ident l)), self1)
         else notify ls c self1)"

definition trial_end_callback :: "int \<Rightarrow> bool \<Rightarrow> state \<Rightarrow> error option \<times> state" where
  "trial_end_callback trial_id success self =
     (case running_models self trial_id of
        None \<Rightarrow> (Some (KeyError (PyInt trial_id)), self)
      | Some model \<Rightarrow>
          (let self1 =
                 (if success
                  then self\<lparr>objects := (objects self)(model := (objects self model)\<lparr>status := Trained\<rparr>)\<rparr>
                  else self\<lparr>objects := (objects self)(model := (objects self model)\<lparr>status := Failed\<rparr>)\<rparr>)
           in notify (listeners self1) (on_training_end model success) self1))"

definition intermediate_metric_callback :: "int \<Rightarrow> pyval \<Rightarrow> state \<Rightarrow> error option \<times> state" where
  "intermediate_metric_callback trial_id metrics self =
     (case running_models self trial_id of
        None \<Rightarrow> (Some (KeyError (PyInt trial_id)), self)
      | Some model \<Rightarrow>
          (let self1 = self\<lparr>objects := (objects self)(model := (objects self model)
                              \<lparr>intermediate_metrics := intermediate_metrics (objects self model) @ [metrics]\<rparr>)\<rparr>
           in notify (listeners self1) (on_intermediate_metric model metrics) self1))"

definition final_metric_callback :: "int \<Rightarrow> pyval \<Rightarrow> state \<Rightarrow> error option \<times> state" where
  "final_metric_callback trial_id metrics self =
     (case running_models self trial_id of
        None \<Rightarrow> (Some (KeyError (PyInt trial_id)), self)
      | Some model \<Rightarrow>
          (let self1 = self\<lparr>objects := (objects self)(model := (objects self model)\<lparr>metric := metrics\<rparr>)\<rparr>
           in notify (listeners self1) (on_metric model metrics) self1))"

definition query_available_resource :: "state \<Rightarrow> int" where
  "query_available_resource self = resources self"

section \<open>Sequences of events\<close>

text \<open>
  The advisor calls the callbacks one event at a time; an exception that leaves one
  callback goes to the advisor and does not undo what the callback wrote.
\<close>

datatype event =
    Grant int
  | Consume pyval
  | TrialEnd int bool
  | IntermediateMetric int pyval
  | FinalMetric int pyval

fun deliver :: "event \<Rightarrow> state \<Rightarrow> error option \<times> state" where
  "deliver (Grant n) self = request_trial_jobs_callback n self"
| "deliver (Consume p) self = send_trial_callback p self"
| "deliver (TrialEnd i b) self = trial_end_callback i b self"
| "deliver (IntermediateMetric i m) self = intermediate_metric_callback i m self"
| "deliver (FinalMetric i m) self = final_metric_callback i m self"

fun deliver_all :: "event list \<Rightarrow> state \<Rightarrow> state" where
  "deliver_all [] self = self"
| "deliver_all (e # es) self = deliver_all es (snd (deliver e self))"

text \<open>What a grant adds to the ledger and what a consume takes from it.\<close>

fun granted :: "event \<Rightarrow> int" where
  "granted (Grant n) = n"
| "granted _ = 0"

fun consumed :: "event \<Rightarrow> int" where
  "consumed (Consume p) = 1"
| "consumed _ = 0"

section \<open>The trial runner\<close>

text \<open>
  \<^verbatim>\<open>trial_execute_graph\<close> runs in the trial's process. What it gets from outside
  is gathered in one record: the parameters received from the advisor, the six random
  characters of the file name, and whether importing the trainer, importing the generated
  model, building model and trainer, and \<^verbatim>\<open>fit\<close> raise. The file system maps a file
  name to the text of the file.
\<close>

record runner =
  trial_parameters :: pyval
  random_str :: string
  import_trainer :: "error option"
  import_model :: "error option"
  build :: "error option"
  fit :: "error option"

definition file_name_of :: "string \<Rightarrow> string" where
  "file_name_of suffix = ''_generated_model_'' @ suffix @ ''.py''"

text \<open>
  \<^verbatim>\<open>open(file_name, 'w')\<close> creates the file empty; \<^verbatim>\<open>f.write\<close> raises
  \<open>TypeError\<close> unless it is given a string.
\<close>

definition trial_execute_graph :: "runner \<Rightarrow> (string \<rightharpoonup> string) \<Rightarrow> error option \<times> (string \<rightharpoonup> string)" where
  "trial_execute_graph env files =
     (case load (trial_parameters env) of
        Inl e \<Rightarrow> (Some e, files)
      | Inr graph_data \<Rightarrow>
          (let file_name = file_name_of (random_str env) in
           case model_script graph_data of
             PyStr text \<Rightarrow>
               (let files1 = files(file_name \<mapsto> text) in
                case import_trainer env of
                  Some e \<Rightarrow> (Some e, files1)
                | None \<Rightarrow>
                    (case import_model env of
                       Some e \<Rightarrow> (Some e, files1)
                     | None \<Rightarrow>
                         (case build env of
                            Some e \<Rightarrow> (Some e, files1)
                          | None \<Rightarrow>
                              (case fit env of
                                 Some e \<Rightarrow> (Some e, files1)
                               | None \<Rightarrow> (None, files1(file_name := None))))))
           | _ \<Rightarrow> (Some TypeError, files(file_name \<mapsto> ''''))))"

section \<open>Observations and example values\<close>

text \<open>
  The listeners a fan-out over \<open>ls\<close> reaches: all of them up to and including the
  first whose callback raises.
\<close>

fun reached :: "listener list \<Rightarrow> call \<Rightarrow> listener list" where
  "reached [] c = []"
| "reached (l # ls) c = (if raises l c then [l] else l # reached ls c)"

fun is_consume :: "event \<Rightarrow> bool" where
  "is_consume (Consume p) = True"
| "is_consume _ = False"

text \<open>
  Concrete values the general theorems are run on: a model, a store that holds it at
  every address, a listener behaviour that never raises and one that always does, a code
  generator, and an advisor that numbers the trials it is sent from its counter.
\<close>

definition example_model :: Model where
  "example_model =
     \<lparr>status = Waiting, intermediate_metrics = [], metric = PyNone,
      training_config = \<lparr>module = PyStr ''pkg.Trainer'', kwargs = PyDict []\<rparr>\<rparr>"

definition example_store :: "ref \<Rightarrow> Model" where
  "example_store r = example_model"

definition quiet :: "call \<Rightarrow> bool" where
  "quiet c = False"

definition faulty :: "call \<Rightarrow> bool" where
  "faulty c = True"

definition example_script :: "Model \<Rightarrow> pyval" where
  "example_script m = PyStr ''class _model: pass''"

definition counting_advisor :: "nat \<Rightarrow> pyval \<Rightarrow> int \<times> nat" where
  "counting_advisor n payload = (int n, Suc n)"

text \<open>
  Two engines, each with two listeners registered and the models at addresses 5 and 6
  submitted as trials 0 and 1. In the second engine the first listener raises.
\<close>

definition example_engine :: state where
  "example_engine =
     snd (submit_models example_script counting_advisor [5, 6]
            (0, register_graph_listener (Listener 2 quiet)
                  (register_graph_listener (Listener 1 quiet) (init example_store))))"

definition faulty_engine :: state where
  "faulty_engine =
     snd (submit_models example_script counting_advisor [5, 6]
            (0, register_graph_listener (Listener 2 quiet)
                  (register_graph_listener (Listener 1 faulty) (init example_store))))"

text \<open>
  A trial whose payload is well formed, whose imports and constructors succeed, and whose
  trainer raises in \<^verbatim>\<open>fit\<close>.
\<close>

definition failing_runner :: runner where
  "failing_runner =
     \<lparr>trial_parameters =
        dump \<lparr>model_script = PyStr ''class _model: pass'',
              training_module = PyStr ''pkg.Trainer'',
              training_kwargs = PyDict []\<rparr>,
      random_str = ''A1B2C3'',
      import_trainer = None, import_model = None, build = None,
      fit = Some TrainerRaised\<rparr>"

section \<open>What a fan-out touches\<close>

lemma notify_fields:
  "listeners (snd (notify ls c s)) = listeners s"
  "running_models (snd (notify ls c s)) = running_models s"
  "resources (snd (notify ls c s)) = resources s"
  "objects (snd (notify ls c s)) = objects s"
  "logged (snd (notify ls c s)) = logged s"
  by (induction ls arbitrary: s) (simp_all add: Let_def)

lemma notify_calls:
  "calls (snd (notify ls c s)) = calls s @ map (\<lambda>l. (ident l, c)) (reached ls c)"
  by (induction ls arbitrary: s) (simp_all add: Let_def)

lemma reached_all: "\<forall>l\<in>set ls. \<not> raises l c \<Longrightarrow> reached ls c = ls"
  by (induction ls) simp_all

lemma notify_ok: "\<forall>l\<in>set ls. \<not> raises l c \<Longrightarrow> fst (notify ls c s) = None"
  by (induction ls arbitrary: s) (simp_all add: Let_def)

lemma callbacks_registry:
  "running_models (snd (trial_end_callback i b s)) = running_models s"
  "running_models (snd (intermediate_metric_callback i m s)) = running_models s"
  "running_models (snd (final_metric_callback i m s)) = running_models s"
  by (simp_all add: trial_end_callback_def intermediate_metric_callback_def
        final_metric_callback_def notify_fields Let_def split: option.splits)

section \<open>The example engines, evaluated\<close>

lemma example_engine_fields:
  "listeners example_engine = [Listener 1 quiet, Listener 2 quiet]"
  "running_models example_engine = [0 \<mapsto> 5, 1 \<mapsto> 6]"
  "resources example_engine = 0"
  "objects example_engine = example_store"
  "logged example_engine = []"
  "calls example_engine = []"
  by (simp_all add: example_engine_def counting_advisor_def register_graph_listener_def
        init_def Let_def)

lemma faulty_engine_fields:
  "listeners faulty_engine = [Listener 1 faulty, Listener 2 quiet]"
  "running_models faulty_engine = [0 \<mapsto> 5, 1 \<mapsto> 6]"
  "objects faulty_engine = example_store"
  "calls faulty_engine = []"
  by (simp_all add: faulty_engine_def counting_advisor_def register_graph_listener_def
        init_def Let_def)

section \<open>The resource ledger\<close>

lemma deliver_resources:
  "resources (snd (deliver e s)) = resources s + granted e - consumed e"
  by (cases e)
     (simp_all add: request_trial_jobs_callback_def send_trial_callback_def
        trial_end_callback_def intermediate_metric_callback_def final_metric_callback_def
        notify_fields Let_def split: option.splits)

lemma deliver_all_resources:
  "resources (deliver_all es s) =
     resources s + sum_list (map granted es) - sum_list (map consumed es)"
  by (induction es arbitrary: s) (simp_all add: deliver_resources)

lemma consumed_count: "sum_list (map consumed es) = int (length (filter is_consume es))"
proof (induction es)
  case Nil
  show ?case by simp
next
  case (Cons e es)
  then show ?case by (cases e) simp_all
qed

text \<open>
  Claim C1. Whatever events are delivered to a freshly constructed engine, in whatever
  order, \<open>query_available_resource\<close> returns the sum of the granted amounts minus the
  number of consume events. The ledger is an unbounded integer, so the value may be
  negative. Trial-end and metric events may stand between the grants and the consumes:
  they leave the ledger alone.
\<close>

theorem ledger_grants_minus_consumes:
  "query_available_resource (deliver_all es (init store)) =
     sum_list (map granted es) - int (length (filter is_consume es))"
  by (simp add: query_available_resource_def deliver_all_resources consumed_count init_def)

text \<open>The run of the specification: two units granted, three consumed, one unit short.\<close>

theorem ledger_grants_minus_consumes_witness:
  "query_available_resource
     (deliver_all [Grant 2, Consume PyNone, Consume PyNone, Consume PyNone]
        (init example_store)) = - 1"
  using ledger_grants_minus_consumes
    [of "[Grant 2, Consume PyNone, Consume PyNone, Consume PyNone]" example_store]
  by simp

section \<open>The end of a trial\<close>

text \<open>
  Claim C2, as amended. For a registered trial, the trial-end callback sets the model's
  status to \<open>Trained\<close> when the trial succeeded and to \<open>Failed\<close> when it did not,
  whatever the listeners do. It then calls \<open>on_training_end\<close> once per registration,
  in registration order, up to and including the first listener that raises; the
  listeners registered after that one are not called. When no listener raises, the
  callback returns normally and every registration has been called once, in order.
\<close>

theorem trial_end_status_and_fan_out:
  "running_models s i = Some r \<Longrightarrow>
     status (objects (snd (trial_end_callback i b s)) r) = (if b then Trained else Failed) \<and>
     calls (snd (trial_end_callback i b s)) =
       calls s @ map (\<lambda>l. (ident l, on_training_end r b))
                   (reached (listeners s) (on_training_end r b)) \<and>
     ((\<forall>l\<in>set (listeners s). \<not> raises l (on_training_end r b)) \<longrightarrow>
        fst (trial_end_callback i b s) = None \<and>
        calls (snd (trial_end_callback i b s)) =
          calls s @ map (\<lambda>l. (ident l, on_training_end r b)) (listeners s))"
  by (simp add: trial_end_callback_def notify_fields notify_calls notify_ok reached_all Let_def)

theorem trial_end_status_and_fan_out_witness:
  "running_models example_engine 0 = Some 5 \<and>
   status (objects (snd (trial_end_callback 0 True example_engine)) 5) = Trained \<and>
   fst (trial_end_callback 0 True example_engine) = None \<and>
   calls (snd (trial_end_callback 0 True example_engine)) =
     [(1, on_training_end 5 True), (2, on_training_end 5 True)]"
proof -
  have registered: "running_models example_engine 0 = Some 5"
    by (simp add: example_engine_fields)
  have silent: "\<forall>l\<in>set (listeners example_engine). \<not> raises l (on_training_end 5 True)"
    by (simp add: example_engine_fields quiet_def)
  from trial_end_status_and_fan_out [OF registered, of True] silent registered
  show ?thesis by (simp add: example_engine_fields)
qed

text \<open>
  Claim C2 as it was stated fails where a listener raises: in \<open>faulty_engine\<close> trial 0
  is registered, listener 2 is registered, the first listener raises, and listener 2 is
  never called.
\<close>

theorem trial_end_raising_listener_counterexample:
  "running_models faulty_engine 0 = Some 5 \<and>
   Listener 2 quiet \<in> set (listeners faulty_engine) \<and>
   fst (trial_end_callback 0 True faulty_engine) = Some (ListenerRaised 1) \<and>
   (2, on_training_end 5 True) \<notin> set (calls (snd (trial_end_callback 0 True faulty_engine)))"
  by (simp add: trial_end_callback_def faulty_engine_fields faulty_def Let_def)

section \<open>Unknown trials\<close>

text \<open>
  Claim C3. For a trial identifier that is not in the registry, each of the trial-end,
  intermediate-metric and final-metric callbacks raises \<open>KeyError\<close> on that identifier
  (the unknown-trial error) and leaves the whole state as it was: ledger, registry,
  models, listeners, and the record of listener calls, so no listener is invoked.
\<close>

theorem unknown_trial_raises_and_changes_nothing:
  "running_models s i = None \<Longrightarrow>
     trial_end_callback i b s = (Some (KeyError (PyInt i)), s) \<and>
     intermediate_metric_callback i m s = (Some (KeyError (PyInt i)), s) \<and>
     final_metric_callback i m s = (Some (KeyError (PyInt i)), s)"
  by (simp add: trial_end_callback_def intermediate_metric_callback_def final_metric_callback_def)

theorem unknown_trial_raises_and_changes_nothing_witness:
  "running_models example_engine 9 = None \<and>
   trial_end_callback 9 False example_engine = (Some (KeyError (PyInt 9)), example_engine) \<and>
   intermediate_metric_callback 9 (PyInt 3) example_engine =
     (Some (KeyError (PyInt 9)), example_engine) \<and>
   final_metric_callback 9 (PyInt 3) example_engine =
     (Some (KeyError (PyInt 9)), example_engine)"
proof -
  have absent: "running_models example_engine 9 = None"
    by (simp add: example_engine_fields)
  from unknown_trial_raises_and_changes_nothing [OF absent, of False "PyInt 3"] absent
  show ?thesis by simp
qed

section \<open>Consuming a resource\<close>

text \<open>
  Claim C4. When the ledger is at most zero and a consume event arrives, the callback does
  not raise. It hands the logger a record of level \<open>WARNING\<close>, takes one unit off the
  ledger all the same (which leaves it negative), and hands the logger the usual
  \<open>INFO\<close> record with the new value. Nothing else in the state changes.
\<close>

theorem consume_without_resource_warns_and_decrements:
  "resources s \<le> 0 \<Longrightarrow>
     send_trial_callback p s =
       (None,
        s\<lparr>resources := resources s - 1,
          logged := logged s @
            [(WARNING, ''There is no available resource, but trial is submitted.'', []),
             (INFO, ''on_resource_used: %d'', [resources s - 1])]\<rparr>)"
  by (simp add: send_trial_callback_def Let_def)

theorem consume_without_resource_warns_and_decrements_witness:
  "resources (init example_store) \<le> 0 \<and>
   fst (send_trial_callback PyNone (init example_store)) = None \<and>
   resources (snd (send_trial_callback PyNone (init example_store))) = - 1 \<and>
   logged (snd (send_trial_callback PyNone (init example_store))) =
     [(WARNING, ''There is no available resource, but trial is submitted.'', []),
      (INFO, ''on_resource_used: %d'', [- 1])] \<and>
   listeners (snd (send_trial_callback PyNone (init example_store))) = [] \<and>
   calls (snd (send_trial_callback PyNone (init example_store))) = []"
proof -
  have short: "resources (init example_store) \<le> 0"
    by (simp add: init_def)
  from consume_without_resource_warns_and_decrements [OF short, of PyNone] short
  show ?thesis by (simp add: init_def)
qed

text \<open>
  Claim C10. The consume callback never reads its parameter: from the same state, two
  calls with different parameters return the same outcome and the same state, and the
  ledger is always exactly one lower than before.
\<close>

theorem send_trial_callback_ignores_parameter:
  "send_trial_callback p1 s = send_trial_callback p2 s \<and>
   resources (snd (send_trial_callback p1 s)) = resources s - 1"
  by (simp add: send_trial_callback_def Let_def)

section \<open>Metrics\<close>

lemma intermediate_objects:
  "running_models s i = Some r \<Longrightarrow>
   objects (snd (intermediate_metric_callback i m s)) =
     (objects s)(r := (objects s r)
        \<lparr>intermediate_metrics := intermediate_metrics (objects s r) @ [m]\<rparr>)"
  by (simp add: intermediate_metric_callback_def notify_fields Let_def)

lemma final_objects:
  "running_models s i = Some r \<Longrightarrow>
   objects (snd (final_metric_callback i m s)) = (objects s)(r := (objects s r)\<lparr>metric := m\<rparr>)"
  by (simp add: final_metric_callback_def notify_fields Let_def)

lemma intermediate_sequence:
  "running_models s i = Some r \<Longrightarrow>
   intermediate_metrics (objects (deliver_all (map (IntermediateMetric i) ms) s) r) =
     intermediate_metrics (objects s r) @ ms"
proof (induction ms arbitrary: s)
  case Nil
  show ?case by simp
next
  case (Cons m ms)
  let ?s = "snd (intermediate_metric_callback i m s)"
  have "running_models ?s i = Some r"
    using Cons.prems by (simp add: callbacks_registry)
  from Cons.IH [OF this] show ?case
    using Cons.prems by (simp add: intermediate_objects)
qed

lemma final_sequence:
  "running_models s i = Some r \<Longrightarrow> ms \<noteq> [] \<Longrightarrow>
   metric (objects (deliver_all (map (FinalMetric i) ms) s) r) = last ms"
proof (induction ms arbitrary: s)
  case Nil
  then show ?case by simp
next
  case (Cons m ms)
  let ?s = "snd (final_metric_callback i m s)"
  have reg: "running_models ?s i = Some r"
    using Cons.prems by (simp add: callbacks_registry)
  show ?case
  proof (cases "ms = []")
    case True
    then show ?thesis using Cons.prems by (simp add: final_objects)
  next
    case False
    with Cons.IH [OF reg] show ?thesis by simp
  qed
qed

text \<open>
  Claim C5. For a registered trial, an intermediate-metric event puts the metric at the
  end of the model's sequence of intermediate metrics and keeps what was there, so a run
  of such events extends the sequence by exactly their metrics, in order. A final-metric
  event overwrites the model's final metric: after a non-empty run of final-metric events
  for the trial, the field holds the metric of the last one. Both hold whether or not a
  listener raises, since the model is written before the listeners are called.
\<close>

theorem metrics_append_and_overwrite:
  "running_models s i = Some r \<Longrightarrow>
     intermediate_metrics (objects (snd (intermediate_metric_callback i m s)) r) =
       intermediate_metrics (objects s r) @ [m] \<and>
     intermediate_metrics (objects (deliver_all (map (IntermediateMetric i) ms) s) r) =
       intermediate_metrics (objects s r) @ ms \<and>
     (ms \<noteq> [] \<longrightarrow>
        metric (objects (deliver_all (map (FinalMetric i) ms) s) r) = last ms)"
  by (simp add: intermediate_objects intermediate_sequence final_sequence)

theorem metrics_append_and_overwrite_witness:
  "running_models example_engine 0 = Some 5 \<and>
   intermediate_metrics
     (objects (snd (intermediate_metric_callback 0 (PyInt 3) example_engine)) 5) = [PyInt 3] \<and>
   intermediate_metrics
     (objects (deliver_all [IntermediateMetric 0 (PyInt 1), IntermediateMetric 0 (PyInt 2)]
        example_engine) 5) = [PyInt 1, PyInt 2] \<and>
   metric
     (objects (deliver_all [FinalMetric 0 (PyInt 1), FinalMetric 0 (PyInt 2)]
        example_engine) 5) = PyInt 2"
proof -
  have registered: "running_models example_engine 0 = Some 5"
    by (simp add: example_engine_fields)
  from metrics_append_and_overwrite [OF registered, of "PyInt 3" "[PyInt 1, PyInt 2]"] registered
  show ?thesis by (simp add: example_engine_fields example_store_def example_model_def)
qed

section \<open>The payload\<close>

text \<open>
  Claim C7. Loading what \<open>dump\<close> returns gives back the payload it was called on, field
  by field: the three fields may hold any value, so in particular any script (one line or
  many), any module name and any keyword arguments (none included).
\<close>

theorem load_dump_roundtrip: "load (dump x) = Inr x"
  by (simp add: load_def dump_def)

text \<open>A script of two lines and no keyword arguments.\<close>

theorem load_dump_roundtrip_witness:
  "load (dump \<lparr>model_script = PyStr (''import torch'' @ [CHR 0x0A] @ ''class _model: pass''),
               training_module = PyStr ''pkg.Trainer'',
               training_kwargs = PyDict []\<rparr>) =
   Inr \<lparr>model_script = PyStr (''import torch'' @ [CHR 0x0A] @ ''class _model: pass''),
        training_module = PyStr ''pkg.Trainer'',
        training_kwargs = PyDict []\<rparr>"
  using load_dump_roundtrip
    [of "\<lparr>model_script = PyStr (''import torch'' @ [CHR 0x0A] @ ''class _model: pass''),
          training_module = PyStr ''pkg.Trainer'',
          training_kwargs = PyDict []\<rparr>"]
  by simp

section \<open>Submission\<close>

lemma length_assigned_ids: "length (assigned_ids f send store rs adv) = length rs"
  by (induction rs arbitrary: adv) (simp_all add: Let_def split: prod.splits)

lemma submit_models_registry:
  "running_models (snd (submit_models f send rs (adv, s))) =
     (running_models s)(assigned_ids f send (objects s) rs adv [\<mapsto>] rs)"
  by (induction rs arbitrary: adv s) (simp_all add: Let_def split: prod.splits)

lemma map_upds_nth:
  "distinct ks \<Longrightarrow> length ks = length vs \<Longrightarrow> i < length vs \<Longrightarrow>
   (m(ks [\<mapsto>] vs)) (ks ! i) = Some (vs ! i)"
proof (induction ks arbitrary: vs m i)
  case Nil
  then show ?case by simp
next
  case (Cons k ks)
  then obtain v vs' where vs: "vs = v # vs'" by (cases vs) auto
  show ?case
  proof (cases i)
    case 0
    then show ?thesis using Cons.prems vs by simp
  next
    case (Suc j)
    have "ks ! j \<in> set ks" using Cons.prems vs Suc by simp
    then have "ks ! j \<noteq> k" using Cons.prems by auto
    then show ?thesis using Suc Cons.prems vs Cons.IH [of vs' j m] by simp
  qed
qed

text \<open>
  Claim C8. Let the advisor give every submission an identifier of its own: the
  identifiers it returns to this call are pairwise distinct and none of them is in the
  registry, whose entries come from earlier submissions. Then submitting \<open>N\<close> models adds
  exactly \<open>N\<close> keys to the registry, the identifier returned for the \<open>i\<close>-th model maps
  to the reference of that very model, and every entry the registry had before is still
  there with the same model.
\<close>

theorem submit_models_registers_each_model:
  "distinct (assigned_ids f send (objects s) rs adv) \<Longrightarrow>
   set (assigned_ids f send (objects s) rs adv) \<inter> dom (running_models s) = {} \<Longrightarrow>
     card (dom (running_models (snd (submit_models f send rs (adv, s)))) -
           dom (running_models s)) = length rs \<and>
     (\<forall>i<length rs.
        running_models (snd (submit_models f send rs (adv, s)))
          (assigned_ids f send (objects s) rs adv ! i) = Some (rs ! i)) \<and>
     (\<forall>k\<in>dom (running_models s).
        running_models (snd (submit_models f send rs (adv, s))) k = running_models s k)"
proof -
  let ?ids = "assigned_ids f send (objects s) rs adv"
  let ?reg = "running_models (snd (submit_models f send rs (adv, s)))"
  assume d: "distinct ?ids" and fresh: "set ?ids \<inter> dom (running_models s) = {}"
  have len: "length ?ids = length rs" by (rule length_assigned_ids)
  have reg: "?reg = (running_models s)(?ids [\<mapsto>] rs)" by (rule submit_models_registry)
  have "dom ?reg = set ?ids \<union> dom (running_models s)"
    using len by (simp add: reg)
  then have "dom ?reg - dom (running_models s) = set ?ids"
    using fresh by blast
  then have c: "card (dom ?reg - dom (running_models s)) = length rs"
    using d len by (simp add: distinct_card)
  have n: "\<forall>i<length rs. ?reg (?ids ! i) = Some (rs ! i)"
    using d len by (simp add: reg map_upds_nth)
  have k: "\<forall>k\<in>dom (running_models s). ?reg k = running_models s k"
  proof
    fix k assume "k \<in> dom (running_models s)"
    then have "k \<notin> set ?ids" using fresh by blast
    then show "?reg k = running_models s k" by (simp add: reg)
  qed
  from c n k show ?thesis by blast
qed

text \<open>
  The engine already holds trials 0 and 1; the advisor's counter stands at 2, and the
  models at addresses 7 and 8 are submitted.
\<close>

theorem submit_models_registers_each_model_witness:
  "assigned_ids example_script counting_advisor (objects example_engine) [7, 8] 2 = [2, 3] \<and>
   card (dom (running_models
           (snd (submit_models example_script counting_advisor [7, 8] (2, example_engine)))) -
         dom (running_models example_engine)) = 2 \<and>
   running_models
     (snd (submit_models example_script counting_advisor [7, 8] (2, example_engine))) 2 = Some 7 \<and>
   running_models
     (snd (submit_models example_script counting_advisor [7, 8] (2, example_engine))) 3 = Some 8 \<and>
   running_models
     (snd (submit_models example_script counting_advisor [7, 8] (2, example_engine))) 0 = Some 5 \<and>
   running_models
     (snd (submit_models example_script counting_advisor [7, 8] (2, example_engine))) 1 = Some 6"
proof -
  have ids: "assigned_ids example_script counting_advisor (objects example_engine) [7, 8] 2 = [2, 3]"
    by (simp add: counting_advisor_def Let_def)
  have d: "distinct (assigned_ids example_script counting_advisor (objects example_engine) [7, 8] 2)"
    unfolding ids by simp
  have fresh:
    "set (assigned_ids example_script counting_advisor (objects example_engine) [7, 8] 2) \<inter>
       dom (running_models example_engine) = {}"
    unfolding ids by (simp add: example_engine_fields)
  note t = submit_models_registers_each_model [OF d fresh, unfolded ids]
  have c: "card (dom (running_models
                   (snd (submit_models example_script counting_advisor [7, 8] (2, example_engine)))) -
                 dom (running_models example_engine)) = 2"
    using t by simp
  have n0: "running_models
       (snd (submit_models example_script counting_advisor [7, 8] (2, example_engine))) 2 = Some 7"
    using t by (auto dest: spec [of _ 0])
  have n1: "running_models
       (snd (submit_models example_script counting_advisor [7, 8] (2, example_engine))) 3 = Some 8"
    using t by (auto dest: spec [of _ 1])
  have old: "\<forall>k\<in>dom (running_models example_engine).
       running_models
         (snd (submit_models example_script counting_advisor [7, 8] (2, example_engine))) k =
       running_models example_engine k"
    using t by blast
  have k0: "running_models
       (snd (submit_models example_script counting_advisor [7, 8] (2, example_engine))) 0 = Some 5"
    using old by (simp add: example_engine_fields)
  have k1: "running_models
       (snd (submit_models example_script counting_advisor [7, 8] (2, example_engine))) 1 = Some 6"
    using old by (simp add: example_engine_fields)
  from ids c n0 n1 k0 k1 show ?thesis by blast
qed

section \<open>The trial runner\<close>

text \<open>
  When everything up to and including \<^verbatim>\<open>fit\<close> returns, the generated file is
  removed again.
\<close>

lemma trial_execute_graph_removes_file_on_success:
  "load (trial_parameters env) = Inr g \<Longrightarrow> model_script g = PyStr src \<Longrightarrow>
   import_trainer env = None \<Longrightarrow> import_model env = None \<Longrightarrow> build env = None \<Longrightarrow>
   fit env = None \<Longrightarrow>
   trial_execute_graph env files =
     (None, files(file_name_of (random_str env) := None))"
  by (simp add: trial_execute_graph_def Let_def)

text \<open>
  Claim C6 asks for the generated file to be removed on every path, also when the
  trainer fails. The code removes it in the statement after \<^verbatim>\<open>fit\<close>, outside any
  \<^verbatim>\<open>try\<close>: when \<^verbatim>\<open>fit\<close> raises, the exception leaves the function and the
  file stays. Here the runner starts from an empty directory, the trainer raises, and
  the file is left behind with the script in it.
\<close>

theorem trial_execute_graph_keeps_file_when_fit_raises:
  "fst (trial_execute_graph failing_runner Map.empty) = Some TrainerRaised \<and>
   snd (trial_execute_graph failing_runner Map.empty) ''_generated_model_A1B2C3.py'' =
     Some ''class _model: pass''"
  by (simp add: trial_execute_graph_def failing_runner_def load_def dump_def file_name_of_def
        Let_def)

end
